theory Spec2Isabelle
  imports Complex_Main
begin

section \<open>The MapboxMap component (src/components/MapboxMap.tsx)\<close>

text \<open>
  The component is a React function component. Its \<open>useState\<close> cells and its two
  \<open>useRef\<close> cells are the fields of the record \<open>state\<close>; every handler of the source
  is a function from the state to the updated state. Calls into the Mapbox SDK are
  appended, in program order, to the field \<open>sdkLog\<close>, so that the order of two calls
  can be read off the log. What the SDK or the browser decides (whether a constructor
  throws, whether \<open>window.mapboxgl\<close> is there) is an explicit argument of type \<open>sdk\<close>.
\<close>

subsection \<open>Data\<close>

text \<open>A coordinate pair as the code passes it to Mapbox: \<open>[lng, lat]\<close>.\<close>

type_synonym coords = "real \<times> real"

text \<open>\<open>selectedLocation?: [number, number] | null\<close>\<close>

datatype selected = SelUndefined | SelNull | SelAt coords

text \<open>\<open>interface MapboxMapProps\<close>; an optional string is \<open>None\<close> when it is not passed.
  \<open>className\<close> has the default \<open>''\<close> in the destructuring.\<close>

record props =
  className :: string
  accessToken :: string
  styleUrl :: "string option"
  localStylePath :: "string option"
  selectedLocation :: selected

text \<open>The object behind \<open>mapInstance.current\<close>: the options it was constructed with; the
  style is overwritten by \<open>setStyle\<close>.\<close>

record map_obj =
  center :: coords
  zoom :: nat
  style :: string

text \<open>The object behind \<open>markerInstance.current\<close>.\<close>

record marker_obj =
  customElement :: bool
  lngLat :: "coords option"
  attached :: bool

text \<open>Calls into the SDK and the platform, as they are logged. A call is logged when it
  is made, also when it throws. The optional methods the source calls through \<open>?.\<close> or
  \<open>!\<close> (\<open>remove\<close>, \<open>getElement\<close>) exist on Mapbox objects and are taken to return.\<close>

datatype sdk_call =
    SetAccessToken string
  | LoadSpriteImages
  | NewMap coords nat string
  | MapSetStyle string
  | MapRemove
  | NewMarker bool
  | MarkerSetLngLat coords
  | MarkerAddTo
  | MarkerGetElement
  | MarkerRemove
  | GeolocationRequest

text \<open>The closure of one \<open>createMap\<close> invocation that reached the \<open>setTimeout\<close> of the
  load timeout: the local \<open>mapStyle\<close>, the \<open>userLocation\<close> of the render the call
  belongs to, whether the handlers were registered (they are only when
  \<open>mapInstance.current\<close> is not null), and whether the timer is still pending.\<close>

record attempt =
  mapStyle :: string
  capturedLocation :: "coords option"
  handlers :: bool
  timerPending :: bool

text \<open>The state cells, the two refs, the log, the \<open>createMap\<close> closures made so far and
  the \<open>userLocation\<close> captured by every \<open>mapRef\<close> call whose 100 ms timer is pending.\<close>

record state =
  isLoading :: bool
  error :: "string option"
  userLocation :: "coords option"
  locationError :: "string option"
  locationRequested :: bool
  retryCount :: nat
  mapInstance :: "map_obj option"
  markerInstance :: "marker_obj option"
  sdkLog :: "sdk_call list"
  attempts :: "attempt list"
  pendingInit :: "coords option list"

text \<open>What the environment decides during one call.\<close>

record sdk =
  mapboxglPresent :: bool
  mapCtorPresent :: bool
  mapCtorThrows :: "string option"
  setStyleThrows :: bool
  customMarkerThrows :: bool
  defaultMarkerThrows :: bool

text \<open>The \<open>GeolocationPositionError\<close> object: the switch of the source compares
  \<open>error.code\<close> with the three constants read from the same object.\<close>

record geo_error =
  code :: nat
  PERMISSION_DENIED :: nat
  POSITION_UNAVAILABLE :: nat
  TIMEOUT :: nat

text \<open>The argument of an \<open>'error'\<close> event: \<open>{ error?: { message?: string } }\<close>.\<close>

datatype error_event = NoError | ErrorObj "string option"

subsection \<open>Constants\<close>

definition fallbackLocation :: coords where
  "fallbackLocation = (- 0.09, 51.505)"

definition defaultStyle :: string where
  "defaultStyle = ''mapbox://styles/mapbox/streets-v12''"

definition customStyle :: string where
  "customStyle = ''mapbox://styles/mamalmirza/cmgtuwcll003k01qrexcs3se4''"

definition timeoutMessage :: string where
  "timeoutMessage =
     ''Map load timeout - please check console for details. Try refreshing the page.''"

definition initialState :: state where
  "initialState = \<lparr> isLoading = True, error = None, userLocation = None,
     locationError = None, locationRequested = False, retryCount = 0,
     mapInstance = None, markerInstance = None, sdkLog = [], attempts = [],
     pendingInit = [] \<rparr>"

subsection \<open>JavaScript helpers\<close>

text \<open>Truthiness of a string and of an optional string.\<close>

definition truthy :: "string \<Rightarrow> bool" where
  "truthy s = (s \<noteq> [])"

fun truthyOpt :: "string option \<Rightarrow> bool" where
  "truthyOpt None = False"
| "truthyOpt (Some s) = truthy s"

text \<open>\<open>String.prototype.includes\<close>.\<close>

fun startsWith :: "string \<Rightarrow> string \<Rightarrow> bool" where
  "startsWith s [] = True"
| "startsWith [] (c # cs) = False"
| "startsWith (d # ds) (c # cs) = (d = c \<and> startsWith ds cs)"

fun includesStr :: "string \<Rightarrow> string \<Rightarrow> bool" where
  "includesStr [] t = (t = [])"
| "includesStr (d # ds) t = (startsWith (d # ds) t \<or> includesStr ds t)"

text \<open>\<open>userLocation || [-0.09, 51.505]\<close>: an array is always truthy.\<close>

fun orFallback :: "coords option \<Rightarrow> coords" where
  "orFallback None = fallbackLocation"
| "orFallback (Some c) = c"

definition logCall :: "sdk_call \<Rightarrow> state \<Rightarrow> state" where
  "logCall c s = s\<lparr>sdkLog := sdkLog s @ [c]\<rparr>"

subsection \<open>Location Acquirer: \<open>getCurrentPosition\<close> and its two callbacks\<close>

text \<open>The argument says whether \<open>navigator.geolocation\<close> exists.\<close>

definition getCurrentPosition :: "bool \<Rightarrow> state \<Rightarrow> state" where
  "getCurrentPosition supported s =
     (let s1 = s\<lparr>locationRequested := True\<rparr> in
      if \<not> supported
      then s1\<lparr>locationError := Some ''Geolocation is not supported by this browser'',
              userLocation := Some fallbackLocation\<rparr>
      else logCall GeolocationRequest s1)"

text \<open>The success callback, from \<open>position.coords\<close>: the pair is stored longitude first.\<close>

definition geoSuccess :: "real \<Rightarrow> real \<Rightarrow> state \<Rightarrow> state" where
  "geoSuccess latitude longitude s =
     s\<lparr>userLocation := Some (longitude, latitude), locationError := None\<rparr>"

text \<open>The \<open>switch (error.code)\<close> of the failure callback: the first matching case wins,
  the initial value of \<open>errorMessage\<close> stays when none matches.\<close>

definition geoErrorMessage :: "geo_error \<Rightarrow> string" where
  "geoErrorMessage e =
     (if code e = PERMISSION_DENIED e then ''Location access denied by user''
      else if code e = POSITION_UNAVAILABLE e then ''Location information is unavailable''
      else if code e = TIMEOUT e then ''Location request timed out''
      else ''Unable to get your location'')"

definition geoFailure :: "geo_error \<Rightarrow> state \<Rightarrow> state" where
  "geoFailure e s =
     s\<lparr>locationError := Some (geoErrorMessage e), userLocation := Some fallbackLocation\<rparr>"

text \<open>The error object a browser passes: the three constants are 1, 2 and 3.\<close>

definition browserGeoError :: "nat \<Rightarrow> geo_error" where
  "browserGeoError c =
     \<lparr> code = c, PERMISSION_DENIED = 1, POSITION_UNAVAILABLE = 2, TIMEOUT = 3 \<rparr>"

subsection \<open>Map Lifecycle Manager: \<open>createMap\<close>\<close>

text \<open>The \<open>if (styleUrl) ... else if (localStylePath) ... else\<close> chain. Both tests are
  truthiness tests, so an empty string counts as absent.\<close>

definition resolveStyle :: "props \<Rightarrow> string" where
  "resolveStyle p =
     (case styleUrl p of
        Some u \<Rightarrow>
          if truthy u then u
          else (case localStylePath p of
                  Some l \<Rightarrow> if truthy l then l else customStyle
                | None \<Rightarrow> customStyle)
      | None \<Rightarrow>
          (case localStylePath p of
             Some l \<Rightarrow> if truthy l then l else customStyle
           | None \<Rightarrow> customStyle))"

text \<open>The middle branch is the only one that awaits \<open>loadSpriteImages\<close>.\<close>

definition usesLocalStyle :: "props \<Rightarrow> bool" where
  "usesLocalStyle p = (\<not> truthyOpt (styleUrl p) \<and> truthyOpt (localStylePath p))"

text \<open>The end of \<open>createMap\<close>: the handlers are registered when
  \<open>mapInstance.current\<close> is not null, the load timeout is started in every case.\<close>

definition startAttempt :: "string \<Rightarrow> coords option \<Rightarrow> state \<Rightarrow> state" where
  "startAttempt ms u s =
     s\<lparr>attempts := attempts s @
          [\<lparr> mapStyle = ms, capturedLocation = u,
             handlers = (mapInstance s \<noteq> None), timerPending = True \<rparr>]\<rparr>"

text \<open>\<open>createMap\<close> for the props \<open>p\<close> and the \<open>userLocation\<close> \<open>u\<close> of the render whose
  closure is running. The body is taken as one step: the \<open>await\<close> of the sprite
  loader only postpones the rest of the same closure. \<open>mapCtorThrows\<close> carries the text
  of the exception of \<open>new Map\<close>. The outer \<open>catch\<close> is reached only by an exception of
  a logging statement or of \<open>on\<close>, which is not modelled.\<close>

definition createMap :: "props \<Rightarrow> coords option \<Rightarrow> sdk \<Rightarrow> state \<Rightarrow> state" where
  "createMap p u k s =
     (if \<not> mapboxglPresent k
      then s\<lparr>error := Some ''Mapbox not available'', isLoading := False\<rparr>
      else
        let s1 = logCall (SetAccessToken (accessToken p)) s;
            ms = resolveStyle p;
            s2 = (if usesLocalStyle p then logCall LoadSpriteImages s1 else s1);
            mapCenter = orFallback u
        in if mapCtorPresent k
           then
             (let s3 = logCall (NewMap mapCenter 13 ms) s2 in
              case mapCtorThrows k of
                Some msg \<Rightarrow>
                  s3\<lparr>error := Some (''Failed to create map: '' @ msg), isLoading := False\<rparr>
              | None \<Rightarrow>
                  startAttempt ms u
                    (s3\<lparr>mapInstance := Some \<lparr> center = mapCenter, zoom = 13, style = ms \<rparr>\<rparr>))
           else startAttempt ms u (s2\<lparr>mapInstance := None\<rparr>))"

subsection \<open>The handlers registered by \<open>createMap\<close>\<close>

text \<open>\<open>e.error?.message || 'Unknown error'\<close>\<close>

fun errorMessageOf :: "error_event \<Rightarrow> string" where
  "errorMessageOf NoError = ''Unknown error''"
| "errorMessageOf (ErrorObj None) = ''Unknown error''"
| "errorMessageOf (ErrorObj (Some m)) = (if truthy m then m else ''Unknown error'')"

text \<open>The first \<open>'error'\<close> handler.\<close>

definition onMapError :: "error_event \<Rightarrow> state \<Rightarrow> state" where
  "onMapError e s =
     s\<lparr>error := Some (''Map load error: '' @ errorMessageOf e), isLoading := False\<rparr>"

text \<open>\<open>e.error && e.error?.message?.includes('style')\<close>\<close>

fun indicatesStyle :: "error_event \<Rightarrow> bool" where
  "indicatesStyle NoError = False"
| "indicatesStyle (ErrorObj None) = False"
| "indicatesStyle (ErrorObj (Some m)) = includesStr m ''style''"

text \<open>\<open>mapInstance.current!.setStyle!(default)\<close> inside a \<open>try\<close>: with a null ref the
  property access throws before any call is made; otherwise the call is logged and,
  unless it throws, the style of the map changes. The flag says whether the statement
  completed.\<close>

definition trySetStyle :: "sdk \<Rightarrow> state \<Rightarrow> state \<times> bool" where
  "trySetStyle k s =
     (case mapInstance s of
        None \<Rightarrow> (s, False)
      | Some m \<Rightarrow>
          let s1 = logCall (MapSetStyle defaultStyle) s in
          if setStyleThrows k then (s1, False)
          else (s1\<lparr>mapInstance := Some (m\<lparr>style := defaultStyle\<rparr>)\<rparr>, True))"

text \<open>The second \<open>'error'\<close> handler: its \<open>catch\<close> only logs.\<close>

definition onStyleError :: "sdk \<Rightarrow> error_event \<Rightarrow> state \<Rightarrow> state" where
  "onStyleError k e s = (if indicatesStyle e then fst (trySetStyle k s) else s)"

text \<open>The callback of the load timeout, for the closure \<open>a\<close>.\<close>

definition onTimeout :: "attempt \<Rightarrow> sdk \<Rightarrow> state \<Rightarrow> state" where
  "onTimeout a k s =
     (if mapInstance s \<noteq> None \<and> mapStyle a \<noteq> defaultStyle
      then (case trySetStyle k s of
              (s1, True) \<Rightarrow> s1
            | (s1, False) \<Rightarrow> s1\<lparr>error := Some timeoutMessage, isLoading := False\<rparr>)
      else s\<lparr>error := Some timeoutMessage, isLoading := False\<rparr>)"

text \<open>\<open>new Marker(..)\<close>, then \<open>setLngLat\<close> and \<open>addTo\<close> when both refs are set.\<close>

definition placeMarker :: "bool \<Rightarrow> coords \<Rightarrow> state \<Rightarrow> state" where
  "placeMarker custom loc s =
     (let s1 = (logCall (NewMarker custom) s)
                 \<lparr>markerInstance :=
                    Some \<lparr> customElement = custom, lngLat = None, attached = False \<rparr>\<rparr>
      in if mapInstance s1 \<noteq> None
         then (logCall MarkerAddTo (logCall (MarkerSetLngLat loc) s1))
                \<lparr>markerInstance :=
                   Some \<lparr> customElement = custom, lngLat = Some loc, attached = True \<rparr>\<rparr>
         else s1)"

text \<open>The \<open>'load'\<close> handler for the closure \<open>a\<close> (the \<open>clearTimeout\<close> is done by the
  dispatcher below, which knows the index of \<open>a\<close>). The props are an argument because
  the closure holds all of them. When the second constructor throws too, the
  exception leaves the handler before \<open>setIsLoading(false)\<close>.\<close>

definition onLoad :: "props \<Rightarrow> attempt \<Rightarrow> sdk \<Rightarrow> state \<Rightarrow> state" where
  "onLoad p a k s =
     (let s1 = (case markerInstance s of
                  Some m \<Rightarrow> (logCall MarkerRemove s)\<lparr>markerInstance := None\<rparr>
                | None \<Rightarrow> s);
          playerLocation = orFallback (capturedLocation a)
      in if \<not> customMarkerThrows k
         then (placeMarker True playerLocation s1)\<lparr>isLoading := False\<rparr>
         else
           let s2 = logCall (NewMarker True) s1 in
           if \<not> defaultMarkerThrows k
           then
             (let s3 = placeMarker False playerLocation s2;
                  s4 = (if mapInstance s3 \<noteq> None then logCall MarkerGetElement s3 else s3)
              in s4\<lparr>isLoading := False\<rparr>)
           else logCall (NewMarker False) s2)"

subsection \<open>Teardown\<close>

text \<open>The cleanup returned by the mount effect.\<close>

definition cleanup :: "state \<Rightarrow> state" where
  "cleanup s =
     (let s1 = (case markerInstance s of
                  Some m \<Rightarrow> (logCall MarkerRemove s)\<lparr>markerInstance := None\<rparr>
                | None \<Rightarrow> s)
      in case mapInstance s1 of
           Some m \<Rightarrow> (logCall MapRemove s1)\<lparr>mapInstance := None\<rparr>
         | None \<Rightarrow> s1)"

text \<open>\<open>handleRetry\<close>, the click handler of the error panel.\<close>

definition handleRetry :: "state \<Rightarrow> state" where
  "handleRetry s =
     (let s0 = s\<lparr>error := None, isLoading := True, retryCount := retryCount s + 1\<rparr>;
          s1 = (case mapInstance s0 of
                  Some m \<Rightarrow> (logCall MapRemove s0)\<lparr>mapInstance := None\<rparr>
                | None \<Rightarrow> s0)
      in case markerInstance s1 of
           Some m \<Rightarrow> (logCall MarkerRemove s1)\<lparr>markerInstance := None\<rparr>
         | None \<Rightarrow> s1)"

subsection \<open>Presentation State Machine: effects, ref callback and render\<close>

text \<open>The effect with the dependencies \<open>[accessToken, isLoading, userLocation,
  locationRequested]\<close> ("Force transition from loading to map container").\<close>

definition forceReady :: "props \<Rightarrow> state \<Rightarrow> state" where
  "forceReady p s =
     (if truthy (accessToken p) \<and> isLoading s \<and> userLocation s \<noteq> None
      then s\<lparr>isLoading := False\<rparr>
      else if truthy (accessToken p) \<and> isLoading s \<and> locationRequested s
                \<and> userLocation s = None
      then s\<lparr>isLoading := False\<rparr>
      else s)"

text \<open>The effect with the dependency \<open>[accessToken]\<close>, run at mount.\<close>

definition mountEffect :: "props \<Rightarrow> bool \<Rightarrow> state \<Rightarrow> state" where
  "mountEffect p supported s =
     (if \<not> truthy (accessToken p)
      then s\<lparr>error := Some ''No Mapbox access token provided'', isLoading := False\<rparr>
      else getCurrentPosition supported s)"

text \<open>\<open>mapRef\<close> called with the container node: both branches start the 100 ms timer
  of \<open>initializeMap\<close>, whose closure holds the \<open>userLocation\<close> of this render.\<close>

definition mapRef :: "props \<Rightarrow> state \<Rightarrow> state" where
  "mapRef p s =
     (if truthy (accessToken p) \<and> userLocation s \<noteq> None
      then s\<lparr>pendingInit := pendingInit s @ [userLocation s]\<rparr>
      else if truthy (accessToken p) \<and> locationRequested s \<and> userLocation s = None
      then s\<lparr>pendingInit := pendingInit s @ [userLocation s]\<rparr>
      else s)"

text \<open>How the asset loading of \<open>initializeMap\<close> ends: \<open>window.mapboxgl\<close> was there,
  the injected script fired \<open>onload\<close>, it fired \<open>onerror\<close>, or the 500 ms grace timer
  ran (it calls \<open>createMap\<close> only when \<open>window.mapboxgl\<close> is there by then). The
  injection of the tags and \<open>loadCustomFonts\<close> touch the page only, not the state of
  the component, and the wait for the script is folded into the same step.\<close>

datatype asset_outcome = AlreadyLoaded | ScriptLoaded | ScriptFailed | GraceTimer

definition initializeMap ::
  "props \<Rightarrow> coords option \<Rightarrow> asset_outcome \<Rightarrow> sdk \<Rightarrow> state \<Rightarrow> state" where
  "initializeMap p u outcome k s =
     (case outcome of
        AlreadyLoaded \<Rightarrow> createMap p u k s
      | ScriptLoaded \<Rightarrow> createMap p u k s
      | ScriptFailed \<Rightarrow> s\<lparr>error := Some ''Failed to load Mapbox script'', isLoading := False\<rparr>
      | GraceTimer \<Rightarrow> (if mapboxglPresent k then createMap p u k s else s))"

text \<open>The three returns of the component.\<close>

datatype view =
    ErrorPanel string string nat bool
  | LoadingPanel string bool bool
  | MapContainer string

definition render :: "props \<Rightarrow> state \<Rightarrow> view" where
  "render p s =
     (if truthyOpt (error s)
      then ErrorPanel (className p) (case error s of Some m \<Rightarrow> m | None \<Rightarrow> [])
             (if retryCount s > 0 then retryCount s else 1) (retryCount s \<ge> 2)
      else if isLoading s
      then LoadingPanel (className p)
             (userLocation s = None \<and> \<not> truthyOpt (locationError s))
             (truthyOpt (locationError s))
      else MapContainer (className p))"

text \<open>The controller states of the specification, read off the render.\<close>

datatype phase = Loading | Ready | Failed

definition phaseOf :: "state \<Rightarrow> phase" where
  "phaseOf s = (if truthyOpt (error s) then Failed else if isLoading s then Loading else Ready)"

subsection \<open>The component as a transition system\<close>

text \<open>What can happen to a mounted component. A map event names the \<open>createMap\<close>
  closure it belongs to by its index in \<open>attempts\<close>.\<close>

datatype event =
    EvMount bool
  | EvGeoSuccess real real
  | EvGeoError geo_error
  | EvRefAttach
  | EvInit asset_outcome sdk
  | EvMapError nat error_event sdk
  | EvTimeout nat sdk
  | EvLoad nat sdk
  | EvRetry

definition setTimer :: "nat \<Rightarrow> bool \<Rightarrow> state \<Rightarrow> state" where
  "setTimer n b s = s\<lparr>attempts := (attempts s)[n := (attempts s ! n)\<lparr>timerPending := b\<rparr>]\<rparr>"

text \<open>One event. The two \<open>'error'\<close> handlers run in the order of their registration. The
  ref callback runs only while the container is rendered, the retry button exists
  only in the error panel, a timer fires once, and an event of a closure that
  registered no handler cannot happen.\<close>

fun handle :: "props \<Rightarrow> event \<Rightarrow> state \<Rightarrow> state" where
  "handle p (EvMount supported) s = mountEffect p supported s"
| "handle p (EvGeoSuccess latitude longitude) s = geoSuccess latitude longitude s"
| "handle p (EvGeoError e) s = geoFailure e s"
| "handle p EvRefAttach s = (if phaseOf s = Ready then mapRef p s else s)"
| "handle p (EvInit outcome k) s =
     (case pendingInit s of
        [] \<Rightarrow> s
      | u # rest \<Rightarrow> initializeMap p u outcome k (s\<lparr>pendingInit := rest\<rparr>))"
| "handle p (EvMapError n e k) s =
     (if n < length (attempts s) \<and> handlers (attempts s ! n)
      then onStyleError k e (onMapError e s) else s)"
| "handle p (EvTimeout n k) s =
     (if n < length (attempts s) \<and> timerPending (attempts s ! n)
      then onTimeout (attempts s ! n) k (setTimer n False s) else s)"
| "handle p (EvLoad n k) s =
     (if n < length (attempts s) \<and> handlers (attempts s ! n)
      then onLoad p (attempts s ! n) k (setTimer n False s) else s)"
| "handle p EvRetry s = (if phaseOf s = Failed then handleRetry s else s)"

text \<open>After the handler React renders again and runs the effect whose dependencies
  changed.\<close>

definition step :: "props \<Rightarrow> event \<Rightarrow> state \<Rightarrow> state" where
  "step p ev s = forceReady p (handle p ev s)"

fun run :: "props \<Rightarrow> event list \<Rightarrow> state \<Rightarrow> state" where
  "run p [] s = s"
| "run p (ev # evs) s = run p evs (step p ev s)"

text \<open>A run that ends with the unmount.\<close>

definition runAndUnmount :: "props \<Rightarrow> event list \<Rightarrow> state" where
  "runAndUnmount p evs = cleanup (run p evs initialState)"

text \<open>The renders of a run, one per event.\<close>

fun views :: "props \<Rightarrow> event list \<Rightarrow> state \<Rightarrow> view list" where
  "views p [] s = [render p s]"
| "views p (ev # evs) s = render p s # views p evs (step p ev s)"

subsection \<open>Concrete inputs used by the examples\<close>

definition okSdk :: sdk where
  "okSdk = \<lparr> mapboxglPresent = True, mapCtorPresent = True, mapCtorThrows = None,
     setStyleThrows = False, customMarkerThrows = False, defaultMarkerThrows = False \<rparr>"

definition exampleProps :: props where
  "exampleProps = \<lparr> className = [], accessToken = ''pk.test'', styleUrl = None,
     localStylePath = None, selectedLocation = SelAt (2.35, 48.85) \<rparr>"

text \<open>Mount, a position fix at latitude 56.78 and longitude 12.34, the ref callback and
  a successful \<open>createMap\<close>.\<close>

definition toCreated :: "event list" where
  "toCreated = [EvMount True, EvGeoSuccess 56.78 12.34, EvRefAttach, EvInit AlreadyLoaded okSdk]"

definition styleErrorEvent :: error_event where
  "styleErrorEvent = ErrorObj (Some ''Failed to load style'')"

text \<open>Both style props passed, the remote one empty; and both passed and non-empty.\<close>

definition emptyUrlProps :: props where
  "emptyUrlProps = \<lparr> className = [], accessToken = ''pk.test'', styleUrl = Some [],
     localStylePath = Some ''/styles/rdr2-style/style.json'', selectedLocation = SelUndefined \<rparr>"

definition bothStylesProps :: props where
  "bothStylesProps = \<lparr> className = [], accessToken = ''pk.test'',
     styleUrl = Some ''mapbox://styles/mapbox/dark-v11'',
     localStylePath = Some ''/styles/rdr2-style/style.json'', selectedLocation = SelUndefined \<rparr>"

text \<open>The state after \<open>toCreated\<close>, the closure of its \<open>createMap\<close> call and the marker
  its \<open>'load'\<close> handler places.\<close>

definition createdState :: state where
  "createdState = run exampleProps toCreated initialState"

definition exampleAttempt :: attempt where
  "exampleAttempt = \<lparr> mapStyle = customStyle, capturedLocation = Some (12.34, 56.78),
     handlers = True, timerPending = True \<rparr>"

definition exampleMarker :: marker_obj where
  "exampleMarker = \<lparr> customElement = True, lngLat = Some (12.34, 56.78), attached = True \<rparr>"

text \<open>The number of \<open>setStyle\<close> calls with the default style made so far.\<close>

definition styleSwitches :: "state \<Rightarrow> nat" where
  "styleSwitches s = length (filter (\<lambda>c. c = MapSetStyle defaultStyle) (sdkLog s))"

text \<open>After \<open>toCreated\<close>: a style-related error event before \<open>'load'\<close>; an error
  event followed by a click on Retry; the \<open>'load'\<close> event followed by an error event.\<close>

definition styleErrorState :: state where
  "styleErrorState =
     run exampleProps (toCreated @ [EvMapError 0 styleErrorEvent okSdk]) initialState"

definition retriedState :: state where
  "retriedState =
     run exampleProps (toCreated @ [EvMapError 0 NoError okSdk, EvRetry]) initialState"

definition loadedErrorState :: state where
  "loadedErrorState =
     run exampleProps (toCreated @ [EvLoad 0 okSdk, EvMapError 0 NoError okSdk]) initialState"

text \<open>The order of a browser: the ref callback of the first container render runs
  while the position request is pending, so the closure of the first \<open>createMap\<close>
  holds a null \<open>userLocation\<close>; the fix (latitude 56.78, longitude 12.34) arrives
  afterwards and the first map loads. In the second list the re-render after the
  fix creates a second map, which loads before the first one.\<close>

definition browserOrder :: "event list" where
  "browserOrder = [EvMount True, EvRefAttach, EvInit AlreadyLoaded okSdk,
     EvGeoSuccess 56.78 12.34, EvRefAttach, EvLoad 0 okSdk]"

definition browserOrderBothMaps :: "event list" where
  "browserOrderBothMaps = [EvMount True, EvRefAttach, EvInit AlreadyLoaded okSdk,
     EvGeoSuccess 56.78 12.34, EvRefAttach, EvInit AlreadyLoaded okSdk,
     EvLoad 1 okSdk, EvLoad 0 okSdk]"

section \<open>Properties\<close>

subsection \<open>Geolocation failure\<close>

text \<open>
  Claim C7. Every failure reported by the geolocation capability is turned into one
  message by its code: the message for permission denied, position unavailable or
  timeout when the code is the corresponding constant of the error object (1, 2, 3 in
  a browser), and the generic message for every other code. The message is
  recorded as the location error, the coordinates become the fixed fallback
  \<open>[-0.09, 51.505]\<close>, and the system proceeds: with an access token and no error the
  controller is ready after the callback and the ref callback schedules map
  creation with the fallback coordinates.
\<close>

theorem C7_geolocation_failure_falls_back:
  "locationError (geoFailure e s) = Some (geoErrorMessage e)
   \<and> (geoErrorMessage e = ''Location access denied by user''
      \<or> geoErrorMessage e = ''Location information is unavailable''
      \<or> geoErrorMessage e = ''Location request timed out''
      \<or> geoErrorMessage e = ''Unable to get your location'')
   \<and> geoErrorMessage (browserGeoError 1) = ''Location access denied by user''
   \<and> geoErrorMessage (browserGeoError 2) = ''Location information is unavailable''
   \<and> geoErrorMessage (browserGeoError 3) = ''Location request timed out''
   \<and> userLocation (geoFailure e s) = Some (- 0.09, 51.505)
   \<and> userLocation (step p (EvGeoError e) s) = Some (- 0.09, 51.505)
   \<and> locationError (step p (EvGeoError e) s) = Some (geoErrorMessage e)
   \<and> (code e = PERMISSION_DENIED e
        \<longrightarrow> geoErrorMessage e = ''Location access denied by user'')
   \<and> (code e \<noteq> PERMISSION_DENIED e \<and> code e = POSITION_UNAVAILABLE e
        \<longrightarrow> geoErrorMessage e = ''Location information is unavailable'')
   \<and> (code e \<noteq> PERMISSION_DENIED e \<and> code e \<noteq> POSITION_UNAVAILABLE e \<and> code e = TIMEOUT e
        \<longrightarrow> geoErrorMessage e = ''Location request timed out'')
   \<and> (code e \<noteq> PERMISSION_DENIED e \<and> code e \<noteq> POSITION_UNAVAILABLE e \<and> code e \<noteq> TIMEOUT e
        \<longrightarrow> geoErrorMessage e = ''Unable to get your location'')
   \<and> (c \<noteq> 1 \<and> c \<noteq> 2 \<and> c \<noteq> 3
        \<longrightarrow> geoErrorMessage (browserGeoError c) = ''Unable to get your location'')
   \<and> truthyOpt (locationError (step p (EvGeoError e) s))
   \<and> (truthy (accessToken p) \<and> \<not> truthyOpt (error s)
        \<longrightarrow> phaseOf (step p (EvGeoError e) s) = Ready
            \<and> pendingInit (step p EvRefAttach (step p (EvGeoError e) s))
                = pendingInit s @ [Some (- 0.09, 51.505)])"
proof -
  have msgs: "geoErrorMessage e = ''Location access denied by user''
      \<or> geoErrorMessage e = ''Location information is unavailable''
      \<or> geoErrorMessage e = ''Location request timed out''
      \<or> geoErrorMessage e = ''Unable to get your location''"
    by (simp add: geoErrorMessage_def)
  have mapping: "(code e = PERMISSION_DENIED e
        \<longrightarrow> geoErrorMessage e = ''Location access denied by user'')
   \<and> (code e \<noteq> PERMISSION_DENIED e \<and> code e = POSITION_UNAVAILABLE e
        \<longrightarrow> geoErrorMessage e = ''Location information is unavailable'')
   \<and> (code e \<noteq> PERMISSION_DENIED e \<and> code e \<noteq> POSITION_UNAVAILABLE e \<and> code e = TIMEOUT e
        \<longrightarrow> geoErrorMessage e = ''Location request timed out'')
   \<and> (code e \<noteq> PERMISSION_DENIED e \<and> code e \<noteq> POSITION_UNAVAILABLE e \<and> code e \<noteq> TIMEOUT e
        \<longrightarrow> geoErrorMessage e = ''Unable to get your location'')"
    by (simp add: geoErrorMessage_def)
  have browser: "geoErrorMessage (browserGeoError 1) = ''Location access denied by user''
   \<and> geoErrorMessage (browserGeoError 2) = ''Location information is unavailable''
   \<and> geoErrorMessage (browserGeoError 3) = ''Location request timed out''
   \<and> (c \<noteq> 1 \<and> c \<noteq> 2 \<and> c \<noteq> 3
        \<longrightarrow> geoErrorMessage (browserGeoError c) = ''Unable to get your location'')"
    by (simp add: geoErrorMessage_def browserGeoError_def)
  have stored: "locationError (geoFailure e s) = Some (geoErrorMessage e)
   \<and> userLocation (geoFailure e s) = Some (- 0.09, 51.505)
   \<and> userLocation (step p (EvGeoError e) s) = Some (- 0.09, 51.505)
   \<and> locationError (step p (EvGeoError e) s) = Some (geoErrorMessage e)"
    by (simp add: geoFailure_def fallbackLocation_def step_def forceReady_def)
  have nonempty: "truthyOpt (locationError (step p (EvGeoError e) s))"
    using msgs stored by (auto simp add: truthy_def)
  have proceeds: "phaseOf (step p (EvGeoError e) s) = Ready
      \<and> pendingInit (step p EvRefAttach (step p (EvGeoError e) s))
          = pendingInit s @ [Some (- 0.09, 51.505)]"
    if "truthy (accessToken p)" "\<not> truthyOpt (error s)"
    using that
    by (simp add: step_def forceReady_def geoFailure_def phaseOf_def mapRef_def
          fallbackLocation_def)
  from msgs mapping browser stored nonempty proceeds show ?thesis by blast
qed

theorem C7_geolocation_failure_witness:
  "locationError (step exampleProps (EvGeoError (browserGeoError 1)) initialState)
     = Some ''Location access denied by user''
   \<and> userLocation (step exampleProps (EvGeoError (browserGeoError 1)) initialState)
     = Some (- 0.09, 51.505)
   \<and> code (browserGeoError 1) = PERMISSION_DENIED (browserGeoError 1)
   \<and> geoErrorMessage (browserGeoError 7) = ''Unable to get your location''
   \<and> truthy (accessToken exampleProps) \<and> \<not> truthyOpt (error initialState)
   \<and> phaseOf (step exampleProps (EvGeoError (browserGeoError 1)) initialState) = Ready
   \<and> pendingInit (step exampleProps EvRefAttach
        (step exampleProps (EvGeoError (browserGeoError 1)) initialState))
       = [Some (- 0.09, 51.505)]"
  using C7_geolocation_failure_falls_back
    [where e = "browserGeoError 1" and s = initialState and p = exampleProps and c = 7]
  by (simp add: browserGeoError_def exampleProps_def initialState_def truthy_def)

subsection \<open>The externally selected location\<close>

lemma resolveStyle_ignores_selectedLocation:
  "resolveStyle (p\<lparr>selectedLocation := sel\<rparr>) = resolveStyle p"
  by (simp add: resolveStyle_def split: option.splits)

lemma createMap_ignores_selectedLocation:
  "createMap (p\<lparr>selectedLocation := sel\<rparr>) u k s = createMap p u k s"
  by (simp add: createMap_def resolveStyle_ignores_selectedLocation usesLocalStyle_def)

lemma onLoad_ignores_selectedLocation:
  "onLoad (p\<lparr>selectedLocation := sel\<rparr>) a k s = onLoad p a k s"
  by (simp add: onLoad_def)

lemma initializeMap_ignores_selectedLocation:
  "initializeMap (p\<lparr>selectedLocation := sel\<rparr>) u outcome k s = initializeMap p u outcome k s"
  by (simp add: initializeMap_def createMap_ignores_selectedLocation
        split: asset_outcome.splits)

lemma handle_ignores_selectedLocation:
  "handle (p\<lparr>selectedLocation := sel\<rparr>) ev s = handle p ev s"
  by (cases ev)
     (simp_all add: mountEffect_def mapRef_def initializeMap_ignores_selectedLocation
        onLoad_ignores_selectedLocation split: list.splits)

lemma step_ignores_selectedLocation:
  "step (p\<lparr>selectedLocation := sel\<rparr>) ev s = step p ev s"
  by (simp add: step_def handle_ignores_selectedLocation forceReady_def)

lemma render_ignores_selectedLocation:
  "render (p\<lparr>selectedLocation := sel\<rparr>) s = render p s"
  by (simp add: render_def)

lemma run_ignores_selectedLocation:
  "run (p\<lparr>selectedLocation := sel\<rparr>) evs s = run p evs s"
  by (induction evs arbitrary: s) (simp_all add: step_ignores_selectedLocation)

lemma views_ignores_selectedLocation:
  "views (p\<lparr>selectedLocation := sel\<rparr>) evs s = views p evs s"
  by (induction evs arbitrary: s)
     (simp_all add: step_ignores_selectedLocation render_ignores_selectedLocation)

text \<open>
  Claim C9. Two runs of the component that differ only in the value of
  \<open>selectedLocation\<close> go through the same states (state cells, refs, the log of SDK
  calls with the map center and the marker position) and the same renders, and end
  in the same state at unmount.
\<close>

theorem C9_selectedLocation_inert:
  "run (p\<lparr>selectedLocation := sel\<rparr>) evs s = run p evs s
   \<and> views (p\<lparr>selectedLocation := sel\<rparr>) evs s = views p evs s
   \<and> runAndUnmount (p\<lparr>selectedLocation := sel\<rparr>) evs = runAndUnmount p evs"
  by (simp add: run_ignores_selectedLocation views_ignores_selectedLocation runAndUnmount_def)

theorem C9_selectedLocation_inert_witness:
  "run (exampleProps\<lparr>selectedLocation := SelNull\<rparr>) (toCreated @ [EvLoad 0 okSdk]) initialState
     = run exampleProps (toCreated @ [EvLoad 0 okSdk]) initialState
   \<and> views (exampleProps\<lparr>selectedLocation := SelNull\<rparr>) (toCreated @ [EvLoad 0 okSdk])
       initialState
     = views exampleProps (toCreated @ [EvLoad 0 okSdk]) initialState"
  using C9_selectedLocation_inert
    [where p = exampleProps and sel = SelNull and evs = "toCreated @ [EvLoad 0 okSdk]"
       and s = initialState]
  by simp

subsection \<open>Style resolution\<close>

lemma createMap_success:
  assumes "mapboxglPresent k" "mapCtorPresent k" "mapCtorThrows k = None"
  shows "mapInstance (createMap p u k s)
           = Some \<lparr> center = orFallback u, zoom = 13, style = resolveStyle p \<rparr>"
    and "sdkLog (createMap p u k s)
           = sdkLog s @ [SetAccessToken (accessToken p)]
               @ (if usesLocalStyle p then [LoadSpriteImages] else [])
               @ [NewMap (orFallback u) 13 (resolveStyle p)]"
    and "attempts (createMap p u k s)
           = attempts s @ [\<lparr> mapStyle = resolveStyle p, capturedLocation = u,
                               handlers = True, timerPending = True \<rparr>]"
  using assms by (simp_all add: createMap_def startAttempt_def logCall_def Let_def)

text \<open>
  Claim C6, as stated, fails: with \<open>styleUrl\<close> passed as the empty string and a
  \<open>localStylePath\<close>, both are supplied and the local path is the style of the map.
\<close>

theorem C6_empty_styleUrl_counterexample:
  "styleUrl emptyUrlProps = Some []
   \<and> localStylePath emptyUrlProps = Some ''/styles/rdr2-style/style.json''
   \<and> resolveStyle emptyUrlProps = ''/styles/rdr2-style/style.json''
   \<and> map_option style (mapInstance (createMap emptyUrlProps None okSdk initialState))
       \<noteq> styleUrl emptyUrlProps"
  by (simp add: emptyUrlProps_def resolveStyle_def truthy_def createMap_def okSdk_def
        usesLocalStyle_def startAttempt_def logCall_def initialState_def Let_def)

text \<open>
  Claim C6, amended. A non-empty \<open>styleUrl\<close> is the style; without one, a non-empty
  \<open>localStylePath\<close> is; without either, the hard-coded custom style identifier is. The
  resolved style is the one passed to the map constructor.
\<close>

theorem C6_style_resolution_order:
  "(styleUrl p = Some r \<and> truthy r \<longrightarrow> resolveStyle p = r)
   \<and> (\<not> truthyOpt (styleUrl p) \<and> localStylePath p = Some l \<and> truthy l
        \<longrightarrow> resolveStyle p = l)
   \<and> (\<not> truthyOpt (styleUrl p) \<and> \<not> truthyOpt (localStylePath p)
        \<longrightarrow> resolveStyle p = customStyle)
   \<and> (mapboxglPresent k \<and> mapCtorPresent k \<and> mapCtorThrows k = None
        \<longrightarrow> map_option style (mapInstance (createMap p u k s)) = Some (resolveStyle p)
            \<and> last (sdkLog (createMap p u k s)) = NewMap (orFallback u) 13 (resolveStyle p))"
  by (auto simp add: createMap_success resolveStyle_def split: option.splits)

theorem C6_style_resolution_witness:
  "styleUrl bothStylesProps = Some ''mapbox://styles/mapbox/dark-v11''
   \<and> truthy ''mapbox://styles/mapbox/dark-v11''
   \<and> resolveStyle bothStylesProps = ''mapbox://styles/mapbox/dark-v11''
   \<and> map_option style (mapInstance (createMap bothStylesProps None okSdk initialState))
       = Some ''mapbox://styles/mapbox/dark-v11''"
  using C6_style_resolution_order
    [where p = bothStylesProps and r = "''mapbox://styles/mapbox/dark-v11''"
       and k = okSdk and u = None and s = initialState]
  by (simp add: bothStylesProps_def truthy_def okSdk_def resolveStyle_def createMap_def
        usesLocalStyle_def startAttempt_def logCall_def initialState_def Let_def)

subsection \<open>The position of the marker\<close>

lemma placeMarker_position:
  "markerInstance (placeMarker c loc s) = Some m \<Longrightarrow> lngLat m = Some pos \<Longrightarrow> pos = loc"
  by (auto simp add: placeMarker_def logCall_def Let_def split: if_splits)

lemma onLoad_position:
  assumes "markerInstance (onLoad p a k s) = Some m" and "lngLat m = Some pos"
  shows "pos = orFallback (capturedLocation a)"
proof (cases "customMarkerThrows k")
  case False
  with assms show ?thesis
    by (auto simp add: onLoad_def Let_def dest: placeMarker_position)
next
  case True
  show ?thesis
  proof (cases "defaultMarkerThrows k")
    case False
    with True assms show ?thesis
      by (auto simp add: onLoad_def Let_def logCall_def dest: placeMarker_position
            split: if_splits)
  next
    case both: True
    with True assms show ?thesis
      by (auto simp add: onLoad_def Let_def logCall_def split: option.splits)
  qed
qed

text \<open>
  The anchor of the marker is the \<open>userLocation\<close> of the closure, or
  \<open>[-0.09, 51.505]\<close> when that is null, for every value of \<open>selectedLocation\<close>.
\<close>

lemma onLoad_anchor_from_closure:
  assumes "markerInstance (onLoad (p\<lparr>selectedLocation := sel\<rparr>) a k s) = Some m"
    and "lngLat m = Some pos"
  shows "pos = orFallback (capturedLocation a)
         \<and> onLoad (p\<lparr>selectedLocation := sel\<rparr>) a k s = onLoad p a k s"
  using assms onLoad_position by (simp add: onLoad_ignores_selectedLocation)

text \<open>
  Claim C2 in the order of a browser. The closure of the first \<open>createMap\<close> holds a
  null \<open>userLocation\<close>, because the second branch of \<open>mapRef\<close> tests
  \<open>locationRequested\<close>, which is set when the request starts and not when it ends.
  When the first map loads, the position was acquired (no location error), yet the
  marker is anchored at \<open>[-0.09, 51.505]\<close>. With two maps, the second loading first,
  the handler of the first closure moves the marker from the acquired position to
  the fallback on the map centered on the acquired position.
\<close>

theorem C2_marker_at_fallback_after_fix:
  "userLocation (run exampleProps browserOrder initialState) = Some (12.34, 56.78)
   \<and> locationError (run exampleProps browserOrder initialState) = None
   \<and> capturedLocation (attempts (run exampleProps browserOrder initialState) ! 0) = None
   \<and> map_option lngLat (markerInstance (run exampleProps browserOrder initialState))
       = Some (Some (- 0.09, 51.505))
   \<and> userLocation (run exampleProps browserOrderBothMaps initialState) = Some (12.34, 56.78)
   \<and> map_option center (mapInstance (run exampleProps browserOrderBothMaps initialState))
       = Some (12.34, 56.78)
   \<and> map_option lngLat (markerInstance (run exampleProps browserOrderBothMaps initialState))
       = Some (Some (- 0.09, 51.505))"
  by code_simp

lemma createdState_eq:
  "createdState = \<lparr> isLoading = False, error = None, userLocation = Some (12.34, 56.78),
     locationError = None, locationRequested = True, retryCount = 0,
     mapInstance = Some \<lparr> center = (12.34, 56.78), zoom = 13, style = customStyle \<rparr>,
     markerInstance = None,
     sdkLog = [GeolocationRequest, SetAccessToken ''pk.test'',
               NewMap (12.34, 56.78) 13 customStyle],
     attempts = [exampleAttempt], pendingInit = [] \<rparr>"
  by (simp add: createdState_def toCreated_def step_def forceReady_def mountEffect_def
        getCurrentPosition_def geoSuccess_def mapRef_def initializeMap_def createMap_def
        startAttempt_def resolveStyle_def usesLocalStyle_def logCall_def phaseOf_def
        exampleProps_def okSdk_def initialState_def truthy_def exampleAttempt_def Let_def)

subsection \<open>Map center and marker anchor\<close>

text \<open>
  Claim C10. When a \<open>createMap\<close> invocation constructs a map and registers its
  handlers, the center passed to the constructor is the position at which the \<open>'load'\<close>
  handler of the same closure anchors the marker, whenever that handler runs and
  places one: both are the captured \<open>userLocation\<close>, or \<open>[-0.09, 51.505]\<close> when it is
  null.
\<close>

theorem C10_center_equals_marker_anchor:
  assumes "attempts (createMap p u k s) = attempts s @ [a]" and "handlers a"
    and "markerInstance (onLoad p' a k' s') = Some mk" and "lngLat mk = Some pos"
  shows "\<exists>m. mapInstance (createMap p u k s) = Some m \<and> center m = pos
             \<and> pos = orFallback u
             \<and> NewMap (center m) (zoom m) (style m) \<in> set (sdkLog (createMap p u k s))"
proof -
  from assms(1,2) have ok: "mapboxglPresent k" "mapCtorPresent k" "mapCtorThrows k = None"
    by (auto simp add: createMap_def startAttempt_def logCall_def Let_def
          split: if_splits option.splits)
  from assms(1) createMap_success(3) [OF ok] have "capturedLocation a = u"
    by auto
  with onLoad_position [OF assms(3,4)] have "pos = orFallback u" by simp
  with createMap_success(1,2) [OF ok] show ?thesis by simp
qed

theorem C10_center_equals_marker_anchor_witness:
  "attempts (createMap exampleProps (Some (12.34, 56.78)) okSdk initialState)
     = attempts initialState @ [exampleAttempt]
   \<and> handlers exampleAttempt
   \<and> markerInstance (onLoad exampleProps exampleAttempt okSdk createdState) = Some exampleMarker
   \<and> lngLat exampleMarker = Some (12.34, 56.78)
   \<and> (\<exists>m. mapInstance (createMap exampleProps (Some (12.34, 56.78)) okSdk initialState)
              = Some m
          \<and> center m = (12.34, 56.78))"
  using C10_center_equals_marker_anchor
    [where p = exampleProps and u = "Some (12.34, 56.78)" and k = okSdk and s = initialState
       and a = exampleAttempt and p' = exampleProps and k' = okSdk and s' = createdState
       and mk = exampleMarker and pos = "(12.34, 56.78)"]
  by (simp add: createdState_eq onLoad_def placeMarker_def logCall_def okSdk_def
        exampleAttempt_def exampleMarker_def Let_def createMap_def startAttempt_def
        resolveStyle_def usesLocalStyle_def exampleProps_def initialState_def)

subsection \<open>Loading and ready\<close>




subsection \<open>Teardown order\<close>

lemma teardown_order:
  assumes "mapInstance s = Some m" and "markerInstance s = Some mk"
  shows "sdkLog (cleanup s) = sdkLog s @ [MarkerRemove, MapRemove]"
    and "sdkLog (handleRetry s) = sdkLog s @ [MapRemove, MarkerRemove]"
  using assms by (simp_all add: cleanup_def handleRetry_def logCall_def Let_def)

lemma teardown_nulls_both:
  "mapInstance (cleanup s) = None \<and> markerInstance (cleanup s) = None
   \<and> mapInstance (handleRetry s) = None \<and> markerInstance (handleRetry s) = None"
  by (simp add: cleanup_def handleRetry_def logCall_def Let_def split: option.splits)

text \<open>
  Claim C3 on the retry path: in the error state reached after the map has loaded
  (map and marker both live), \<open>handleRetry\<close> removes the map first and the marker
  second, while the unmount cleanup removes the marker first. Both leave both refs
  null.
\<close>

theorem C3_retry_removes_map_before_marker:
  "phaseOf loadedErrorState = Failed
   \<and> mapInstance loadedErrorState \<noteq> None
   \<and> markerInstance loadedErrorState \<noteq> None
   \<and> sdkLog (handle exampleProps EvRetry loadedErrorState)
       = sdkLog loadedErrorState @ [MapRemove, MarkerRemove]
   \<and> mapInstance (handle exampleProps EvRetry loadedErrorState) = None
   \<and> markerInstance (handle exampleProps EvRetry loadedErrorState) = None
   \<and> sdkLog (cleanup loadedErrorState) = sdkLog loadedErrorState @ [MarkerRemove, MapRemove]"
  by code_simp

subsection \<open>Error events\<close>

lemma mapError_always_fails:
  assumes "n < length (attempts s)" and "handlers (attempts s ! n)"
  shows "phaseOf (step p (EvMapError n e k) s) = Failed"
  using assms
  by (simp add: step_def forceReady_def onStyleError_def onMapError_def trySetStyle_def
        logCall_def phaseOf_def truthy_def Let_def split: option.splits)

text \<open>
  Claim C4 at a style-related error event delivered before \<open>'load'\<close>: the second
  handler switches the map to the default style, but the first handler has put the
  controller into the error state, and a later \<open>'load'\<close> event does not leave it.
\<close>

theorem C4_style_error_enters_error_state:
  "phaseOf createdState = Ready
   \<and> styleErrorState = step exampleProps (EvMapError 0 styleErrorEvent okSdk) createdState
   \<and> indicatesStyle styleErrorEvent
   \<and> map_option style (mapInstance styleErrorState) = Some defaultStyle
   \<and> error styleErrorState = Some ''Map load error: Failed to load style''
   \<and> phaseOf styleErrorState = Failed
   \<and> phaseOf (step exampleProps (EvLoad 0 okSdk) styleErrorState) = Failed"
  by code_simp

lemma mapError_step:
  assumes "n < length (attempts s)" "handlers (attempts s ! n)" "mapInstance s \<noteq> None"
  shows "attempts (step p (EvMapError n e k) s) = attempts s"
    and "mapInstance (step p (EvMapError n e k) s) \<noteq> None"
    and "styleSwitches (step p (EvMapError n e k) s)
           = styleSwitches s + (if indicatesStyle e then 1 else 0)"
  using assms
  by (auto simp add: step_def forceReady_def onStyleError_def onMapError_def trySetStyle_def
        logCall_def styleSwitches_def Let_def split: option.splits)

text \<open>
  Claim C8, as stated, fails: two style-related error events on the map of one
  \<open>createMap\<close> invocation make two \<open>setStyle\<close> calls.
\<close>

theorem C8_two_style_errors_counterexample:
  "length (attempts (run exampleProps
      (toCreated @ [EvMapError 0 styleErrorEvent okSdk, EvMapError 0 styleErrorEvent okSdk])
      initialState)) = 1
   \<and> styleSwitches (run exampleProps
      (toCreated @ [EvMapError 0 styleErrorEvent okSdk, EvMapError 0 styleErrorEvent okSdk])
      initialState) = 2"
  by code_simp

text \<open>
  Claim C8, amended. While the map handle is live, every style-indicating error event
  of a creation attempt makes exactly one \<open>setStyle\<close> call with the default style and
  every other error event makes none: after any sequence of error events the number
  of switches has grown by the number of style-indicating events in it.
\<close>

theorem C8_one_switch_per_style_error:
  assumes "n < length (attempts s)" and "handlers (attempts s ! n)" and "mapInstance s \<noteq> None"
  shows "styleSwitches (run p (map (\<lambda>(e, k). EvMapError n e k) eks) s)
           = styleSwitches s + length (filter (\<lambda>(e, k). indicatesStyle e) eks)"
  using assms
proof (induction eks arbitrary: s)
  case Nil
  then show ?case by simp
next
  case (Cons ek eks)
  obtain e k where ek: "ek = (e, k)" by (cases ek)
  let ?s = "step p (EvMapError n e k) s"
  from Cons.prems have inv: "n < length (attempts ?s)" "handlers (attempts ?s ! n)"
      "mapInstance ?s \<noteq> None"
    by (simp_all add: mapError_step)
  from Cons.IH [OF inv] Cons.prems show ?case
    by (simp add: ek mapError_step(3))
qed

theorem C8_one_switch_per_style_error_witness:
  "0 < length (attempts createdState) \<and> handlers (attempts createdState ! 0)
   \<and> mapInstance createdState \<noteq> None
   \<and> styleSwitches (run exampleProps
        (map (\<lambda>(e, k). EvMapError 0 e k)
           [(styleErrorEvent, okSdk), (NoError, okSdk), (styleErrorEvent, okSdk)])
        createdState) = 2"
  using C8_one_switch_per_style_error
    [where n = 0 and s = createdState and p = exampleProps
       and eks = "[(styleErrorEvent, okSdk), (NoError, okSdk), (styleErrorEvent, okSdk)]"]
  by (simp add: createdState_eq exampleAttempt_def styleSwitches_def styleErrorEvent_def)

subsection \<open>The load timeout\<close>

lemma onTimeout_attempts: "attempts (onTimeout a k s) = attempts s"
  by (simp add: onTimeout_def trySetStyle_def logCall_def Let_def split: option.splits)

lemma timeout_fires_once:
  "handle p (EvTimeout n k') (handle p (EvTimeout n k) s) = handle p (EvTimeout n k) s"
  by (simp add: onTimeout_attempts setTimer_def)

text \<open>
  Claim C5, as stated, fails, because the callback tests the style resolved at creation
  and the liveness of the map handle, not the style that is active. First run: the
  error handler has already switched the map to the default style; the timeout
  switches again and does not set the load-timeout error. Second run: the closure's
  style is not the default one, the handle was released by a retry; the timeout
  makes no switch and sets the error.
\<close>

theorem C5_timeout_counterexample:
  "map_option style (mapInstance styleErrorState) = Some defaultStyle
   \<and> timerPending (attempts styleErrorState ! 0)
   \<and> error (step exampleProps (EvTimeout 0 okSdk) styleErrorState) \<noteq> Some timeoutMessage
   \<and> sdkLog (step exampleProps (EvTimeout 0 okSdk) styleErrorState)
       = sdkLog styleErrorState @ [MapSetStyle defaultStyle]
   \<and> mapStyle (attempts retriedState ! 0) \<noteq> defaultStyle
   \<and> timerPending (attempts retriedState ! 0)
   \<and> phaseOf retriedState = Ready
   \<and> sdkLog (step exampleProps (EvTimeout 0 okSdk) retriedState) = sdkLog retriedState
   \<and> phaseOf (step exampleProps (EvTimeout 0 okSdk) retriedState) = Failed"
  by code_simp

text \<open>
  Claim C5, amended. When the timeout fires while a map handle is live and the style
  resolved at creation is not the default one, the callback calls \<open>setStyle\<close> with the
  default style once; if the call returns, error and loading flag are unchanged. When
  the call throws, when the resolved style is the default one, or when no handle is
  live, the callback sets the load-timeout error and clears the loading flag (without
  a switch in the last two cases). A timer fires at most once.
\<close>

theorem C5_timeout_fallback:
  "(mapInstance s = Some m \<and> mapStyle a \<noteq> defaultStyle \<and> \<not> setStyleThrows k \<longrightarrow>
      error (onTimeout a k s) = error s
      \<and> isLoading (onTimeout a k s) = isLoading s
      \<and> sdkLog (onTimeout a k s) = sdkLog s @ [MapSetStyle defaultStyle]
      \<and> mapInstance (onTimeout a k s) = Some (m\<lparr>style := defaultStyle\<rparr>))
   \<and> (mapInstance s = Some m \<and> mapStyle a \<noteq> defaultStyle \<and> setStyleThrows k \<longrightarrow>
      error (onTimeout a k s) = Some timeoutMessage
      \<and> \<not> isLoading (onTimeout a k s)
      \<and> sdkLog (onTimeout a k s) = sdkLog s @ [MapSetStyle defaultStyle])
   \<and> (mapInstance s = None \<or> mapStyle a = defaultStyle \<longrightarrow>
      error (onTimeout a k s) = Some timeoutMessage
      \<and> \<not> isLoading (onTimeout a k s)
      \<and> sdkLog (onTimeout a k s) = sdkLog s)
   \<and> handle p (EvTimeout n k') (handle p (EvTimeout n k) s) = handle p (EvTimeout n k) s"
proof -
  have switch: "error (onTimeout a k s) = error s
      \<and> isLoading (onTimeout a k s) = isLoading s
      \<and> sdkLog (onTimeout a k s) = sdkLog s @ [MapSetStyle defaultStyle]
      \<and> mapInstance (onTimeout a k s) = Some (m\<lparr>style := defaultStyle\<rparr>)"
    if "mapInstance s = Some m" "mapStyle a \<noteq> defaultStyle" "\<not> setStyleThrows k"
    using that by (simp add: onTimeout_def trySetStyle_def logCall_def Let_def)
  have throws: "error (onTimeout a k s) = Some timeoutMessage
      \<and> \<not> isLoading (onTimeout a k s)
      \<and> sdkLog (onTimeout a k s) = sdkLog s @ [MapSetStyle defaultStyle]"
    if "mapInstance s = Some m" "mapStyle a \<noteq> defaultStyle" "setStyleThrows k"
    using that by (simp add: onTimeout_def trySetStyle_def logCall_def Let_def)
  have terminal: "error (onTimeout a k s) = Some timeoutMessage
      \<and> \<not> isLoading (onTimeout a k s)
      \<and> sdkLog (onTimeout a k s) = sdkLog s"
    if "mapInstance s = None \<or> mapStyle a = defaultStyle"
    using that by (auto simp add: onTimeout_def)
  from switch throws terminal timeout_fires_once show ?thesis by blast
qed

theorem C5_timeout_fallback_witness:
  "mapInstance createdState = Some \<lparr> center = (12.34, 56.78), zoom = 13, style = customStyle \<rparr>
   \<and> mapStyle exampleAttempt \<noteq> defaultStyle
   \<and> \<not> setStyleThrows okSdk
   \<and> error (onTimeout exampleAttempt okSdk createdState) = None
   \<and> sdkLog (onTimeout exampleAttempt okSdk createdState)
       = sdkLog createdState @ [MapSetStyle defaultStyle]
   \<and> error (onTimeout (exampleAttempt\<lparr>mapStyle := defaultStyle\<rparr>) okSdk createdState)
       = Some timeoutMessage"
  using C5_timeout_fallback
    [where s = createdState and a = exampleAttempt and k = okSdk
       and m = "\<lparr> center = (12.34, 56.78), zoom = 13, style = customStyle \<rparr>"]
    C5_timeout_fallback
    [where s = createdState and a = "exampleAttempt\<lparr>mapStyle := defaultStyle\<rparr>" and k = okSdk]
  by (simp add: createdState_eq exampleAttempt_def okSdk_def customStyle_def defaultStyle_def)

end
